theory Spec2Isabelle
  imports Main
begin

section \<open>Python values, errors and the external collaborators\<close>

text \<open>
  \<^verbatim>\<open>main.py\<close> is the command dispatcher of notion-scholar. It is dynamically typed:
  an argument that was not given is \<^verbatim>\<open>None\<close>, an option of the command line is a
  string, the save flag is a boolean. The values that flow through the dispatcher are
  therefore modelled as Python values: \<^verbatim>\<open>None\<close>, a string or a boolean.
\<close>

datatype pyval = PNone | PStr string | PBool bool

text \<open>
  What \<^verbatim>\<open>argparse\<close> reports through \<^verbatim>\<open>parser.error\<close>: required options that are
  missing (by option name), two options of a mutually exclusive group given together,
  none of the options of a required group given.
\<close>

datatype usage = MissingRequired "string list" | NotAllowedTogether | OneOfRequired

text \<open>
  \<^verbatim>\<open>ConfigError\<close> carries its message. \<^verbatim>\<open>UsageError\<close> is the exit with status 2 at
  the end of \<^verbatim>\<open>parser.error\<close>; \<^verbatim>\<open>AssertionError\<close> is the failed assertion inside
  \<^verbatim>\<open>argparse\<close> described below. \<^verbatim>\<open>CollaboratorError\<close> stands for any exception that a
  function imported from another module raises (authentication, not found, I/O).
\<close>

datatype error =
  ConfigError string | UsageError usage | AssertionError | CollaboratorError string

text \<open>The keyword arguments of the call \<^verbatim>\<open>run(token=..., database_id=..., ...)\<close>.\<close>

record run_kwargs =
  kw_token :: pyval
  kw_database_id :: pyval
  kw_bib_string :: pyval
  kw_bib_file_path :: pyval
  kw_save_to_bib_file :: pyval

text \<open>
  The functions that \<^verbatim>\<open>main.py\<close> imports are parameters of the model: what
  \<^verbatim>\<open>get_token()\<close> and \<^verbatim>\<open>get_config()\<close> return, and how the remote client, the file
  writer and \<^verbatim>\<open>run\<close> answer a call. So is the width of the terminal
  (\<^verbatim>\<open>shutil.get_terminal_size().columns\<close>), which \<^verbatim>\<open>argparse\<close> reads when it prints
  a usage line.
\<close>

record env =
  get_token :: pyval
  get_config :: "string \<rightharpoonup> pyval"
  get_bibtex_string_list_from_database :: "pyval \<Rightarrow> pyval \<Rightarrow> error + string list"
  write_to_file :: "string \<Rightarrow> pyval \<Rightarrow> error + unit"
  run :: "run_kwargs \<Rightarrow> error + pyval"
  columns :: nat

text \<open>
  Every call that leaves \<^verbatim>\<open>main.py\<close> is recorded, in program order. The remote fetch
  and \<^verbatim>\<open>run\<close> are the calls that reach the network; \<^verbatim>\<open>write_to_file\<close> is the only
  call that writes a file.
\<close>

datatype event =
    Call_get_token
  | Call_get_config
  | Call_get_bibtex_string_list_from_database pyval pyval
  | Call_print "string list"
  | Call_write_to_file string pyval
  | Call_run run_kwargs

fun is_network_call :: "event \<Rightarrow> bool" where
  "is_network_call (Call_get_bibtex_string_list_from_database t d) = True"
| "is_network_call (Call_run kw) = True"
| "is_network_call e = False"

fun is_file_write :: "event \<Rightarrow> bool" where
  "is_file_write (Call_write_to_file c p) = True"
| "is_file_write e = False"

section \<open>Helpers of the dispatcher\<close>

text \<open>\<^verbatim>\<open>return choice_1 if choice_1 is not None else choice_2\<close>\<close>

definition fallback :: "pyval \<Rightarrow> pyval \<Rightarrow> pyval" where
  "fallback choice_1 choice_2 = (if choice_1 \<noteq> PNone then choice_1 else choice_2)"

text \<open>\<^verbatim>\<open>config.get(key, default)\<close>\<close>

definition dict_get :: "(string \<rightharpoonup> pyval) \<Rightarrow> string \<Rightarrow> pyval \<Rightarrow> pyval" where
  "dict_get config k d = (case config k of None \<Rightarrow> d | Some v \<Rightarrow> v)"

text \<open>\<^verbatim>\<open>sep.join(xs)\<close> on a list of strings.\<close>

fun join :: "string \<Rightarrow> string list \<Rightarrow> string" where
  "join sep [] = []"
| "join sep [x] = x"
| "join sep (x # y # ys) = x @ sep @ join sep (y # ys)"

text \<open>\<^verbatim>\<open>w in msg\<close> on strings: \<open>w\<close> occurs in \<open>msg\<close> as a contiguous piece.\<close>

fun contains :: "string \<Rightarrow> string \<Rightarrow> bool" where
  "contains [] w = (w = [])"
| "contains (c # cs) w = (take (length w) (c # cs) = w \<or> contains cs w)"

text \<open>The separator \<^verbatim>\<open>'\n\n'\<close>: two line feeds.\<close>

definition blank_line :: string where
  "blank_line = [CHR 0x0A, CHR 0x0A]"

section \<open>The handlers of \<^verbatim>\<open>run\<close> and \<^verbatim>\<open>download\<close>\<close>

text \<open>
  \<^verbatim>\<open>sanitize_arguments_and_run(token, database_id, bib_file_path, bib_string, save)\<close>.
  The result is the list of calls made and either the exception raised or the value
  returned.
\<close>

definition sanitize_arguments_and_run ::
  "env \<Rightarrow> pyval \<Rightarrow> pyval \<Rightarrow> pyval \<Rightarrow> pyval \<Rightarrow> pyval \<Rightarrow> event list \<times> (error + pyval)" where
  "sanitize_arguments_and_run e token database_id bib_file_path bib_string save =
    (let token1 = fallback token (get_token e) in
     if token1 = PNone
     then ([Call_get_token], Inl (ConfigError ''The Notion token is not set nor saved.''))
     else
       let config = get_config e;
           database_id1 = fallback database_id (dict_get config ''database_id'' PNone) in
       if database_id1 = PNone
       then ([Call_get_token, Call_get_config],
             Inl (ConfigError ''The database_id is not set nor saved.''))
       else
         let bib_file_path1 = fallback bib_file_path (dict_get config ''bib_file_path'' PNone);
             save_str = dict_get config ''save_to_bib_file'' (PStr ''True'');
             save_to_bib_file = fallback save (PBool (save_str = PStr ''True''));
             kw = \<lparr>kw_token = token1, kw_database_id = database_id1,
                   kw_bib_string = bib_string, kw_bib_file_path = bib_file_path1,
                   kw_save_to_bib_file = save_to_bib_file\<rparr>
         in ([Call_get_token, Call_get_config, Call_run kw], run e kw))"

text \<open>\<^verbatim>\<open>sanitize_arguments_and_download(file_path, token, database_id)\<close>\<close>

definition sanitize_arguments_and_download ::
  "env \<Rightarrow> pyval \<Rightarrow> pyval \<Rightarrow> pyval \<Rightarrow> event list \<times> (error + pyval)" where
  "sanitize_arguments_and_download e file_path token database_id =
    (let token1 = fallback token (get_token e) in
     if token1 = PNone
     then ([Call_get_token], Inl (ConfigError ''The Notion token is not set nor saved.''))
     else
       let config = get_config e;
           database_id1 = fallback database_id (dict_get config ''database_id'' PNone) in
       if database_id1 = PNone
       then ([Call_get_token, Call_get_config],
             Inl (ConfigError ''The database_id is not set nor saved.''))
       else
         (case get_bibtex_string_list_from_database e token1 database_id1 of
            Inl err \<Rightarrow>
              ([Call_get_token, Call_get_config,
                Call_get_bibtex_string_list_from_database token1 database_id1], Inl err)
          | Inr bibtex_str_list \<Rightarrow>
              (let content = join blank_line bibtex_str_list;
                   calls = [Call_get_token, Call_get_config,
                            Call_get_bibtex_string_list_from_database token1 database_id1,
                            Call_print bibtex_str_list,
                            Call_write_to_file content file_path]
               in case write_to_file e content file_path of
                    Inl err \<Rightarrow> (calls, Inl err)
                  | Inr u \<Rightarrow> (calls, Inr PNone))))"

section \<open>The argument parser and \<^verbatim>\<open>main\<close>\<close>

text \<open>An option of the command line: absent (the default \<^verbatim>\<open>None\<close>) or given with a string.\<close>

definition of_option :: "string option \<Rightarrow> pyval" where
  "of_option a = (case a of None \<Rightarrow> PNone | Some s \<Rightarrow> PStr s)"

text \<open>
  How \<^verbatim>\<open>parser.error\<close> ends (\<^verbatim>\<open>argparse\<close> of Python 3.11). It first prints the usage
  line of the sub-parser. The \<^verbatim>\<open>prog\<close> of a sub-parser is the \<^verbatim>\<open>usage\<close> text given to
  the main parser followed by the name of the sub-command. Every option is declared
  with \<^verbatim>\<open>metavar=''\<close>, so its part of the usage line is the flag followed by a space
  and an empty name: in brackets, with the space removed, when the option is not
  required, and bare, with the space kept, when it is required.
\<close>

definition parser_usage :: string where
  "parser_usage = ''Use '' @ [CHR 0x22] @ ''notion-scholar --help'' @ [CHR 0x22] @ '' or '' @
     [CHR 0x22] @ ''ns --help'' @ [CHR 0x22] @ '' for more information''"

definition option_usage :: "bool \<Rightarrow> string \<Rightarrow> string" where
  "option_usage required flag = (if required then flag @ '' '' else ''['' @ flag @ '']'')"

text \<open>
  The usage line of the \<^verbatim>\<open>run\<close> sub-parser, without the prefix \<^verbatim>\<open>usage: \<close>. \<^verbatim>\<open>--token\<close>
  is required when no token is stored; \<^verbatim>\<open>-f\<close> and \<^verbatim>\<open>-s\<close> are shown as a required
  mutually exclusive group when no bib file path is configured.
\<close>

definition run_usage :: "env \<Rightarrow> string" where
  "run_usage e =
     join '' '' [parser_usage, ''run'', ''[-h]'',
                 option_usage (get_token e = PNone) ''-t'', ''[-db]'',
                 (if dict_get (get_config e) ''bib_file_path'' PNone = PNone
                  then ''(-f  | -s )'' else ''[-f] [-s]'')]"

text \<open>The usage line of the \<^verbatim>\<open>download\<close> sub-parser: \<^verbatim>\<open>--file-path\<close> is always required.\<close>

definition download_usage :: "env \<Rightarrow> string" where
  "download_usage e =
     join '' '' [parser_usage, ''download'', ''[-h]'', option_usage True ''-f'',
                 option_usage (get_token e = PNone) ''-t'', ''[-db]'']"

text \<open>
  \<^verbatim>\<open>parser.error(message)\<close>. When the prefix \<^verbatim>\<open>usage: \<close> and the usage line are longer
  than the terminal width minus two, \<^verbatim>\<open>argparse\<close> splits the options at white space
  and asserts that joining the pieces with single spaces gives the text back. The
  bare part of a required option ends in a space, which leaves two spaces in a row:
  the assertion fails and \<^verbatim>\<open>AssertionError\<close> leaves \<^verbatim>\<open>main\<close>. Otherwise the usage and
  the message are printed and the process exits with status 2.
\<close>

definition parser_error :: "env \<Rightarrow> string \<Rightarrow> bool \<Rightarrow> usage \<Rightarrow> error" where
  "parser_error e usage_line required_option u =
     (if columns e < length ''usage: '' + length usage_line + 2 \<and> required_option
      then AssertionError else UsageError u)"

text \<open>
  \<^verbatim>\<open>get_parser().parse_args()\<close> on a command line \<^verbatim>\<open>run [-t T] [-db D] [-f F] [-s S]\<close>.
  \<^verbatim>\<open>--token\<close> is required when no token is stored. When no bib file path is configured,
  \<^verbatim>\<open>-f\<close> and \<^verbatim>\<open>-s\<close> form a required mutually exclusive group; otherwise they form a plain
  argument group. \<^verbatim>\<open>argparse\<close> reports a conflict while it reads the options, then missing
  required options, then an unsatisfied required group.
\<close>

definition parse_args_run ::
  "env \<Rightarrow> string option \<Rightarrow> string option \<Rightarrow> string option \<Rightarrow> string option
     \<Rightarrow> error + (pyval \<times> pyval \<times> pyval \<times> pyval)" where
  "parse_args_run e token database_id bib_file_path bib_string =
    (let exclusive = (dict_get (get_config e) ''bib_file_path'' PNone = PNone);
         required = (get_token e = PNone) in
     if exclusive \<and> bib_file_path \<noteq> None \<and> bib_string \<noteq> None
     then Inl (parser_error e (run_usage e) required NotAllowedTogether)
     else if required \<and> token = None
     then Inl (parser_error e (run_usage e) required (MissingRequired [''-t/--token'']))
     else if exclusive \<and> bib_file_path = None \<and> bib_string = None
     then Inl (parser_error e (run_usage e) required OneOfRequired)
     else Inr (of_option token, of_option database_id,
               of_option bib_file_path, of_option bib_string))"

text \<open>
  The same for \<^verbatim>\<open>download [-f F] [-t T] [-db D]\<close>: \<^verbatim>\<open>--file-path\<close> is always required,
  \<^verbatim>\<open>--token\<close> when no token is stored.
\<close>

definition parse_args_download ::
  "env \<Rightarrow> string option \<Rightarrow> string option \<Rightarrow> string option
     \<Rightarrow> error + (pyval \<times> pyval \<times> pyval)" where
  "parse_args_download e file_path token database_id =
    (let missing = (if file_path = None then [''-f/--file-path''] else []) @
                   (if get_token e = PNone \<and> token = None then [''-t/--token''] else []) in
     if missing \<noteq> []
     then Inl (parser_error e (download_usage e) True (MissingRequired missing))
     else Inr (of_option file_path, of_option token, of_option database_id))"

text \<open>
  \<^verbatim>\<open>main()\<close> in mode \<^verbatim>\<open>run\<close> and in mode \<^verbatim>\<open>download\<close>: \<^verbatim>\<open>get_parser\<close> reads the token
  and the configuration, the command line is parsed, and the parsed options are passed
  on as keyword arguments. The \<^verbatim>\<open>run\<close> parser has no \<^verbatim>\<open>save\<close> option, so \<^verbatim>\<open>save\<close> keeps
  its default \<^verbatim>\<open>None\<close>. \<^verbatim>\<open>main\<close> drops what the handler returns and returns \<^verbatim>\<open>None\<close>.
\<close>

definition main_run ::
  "env \<Rightarrow> string option \<Rightarrow> string option \<Rightarrow> string option \<Rightarrow> string option
     \<Rightarrow> event list \<times> (error + pyval)" where
  "main_run e token database_id bib_file_path bib_string =
    (case parse_args_run e token database_id bib_file_path bib_string of
       Inl err \<Rightarrow> ([Call_get_token, Call_get_config], Inl err)
     | Inr (t, d, f, s) \<Rightarrow>
         (let r = sanitize_arguments_and_run e t d f s PNone
          in ([Call_get_token, Call_get_config] @ fst r,
              case snd r of Inl err \<Rightarrow> Inl err | Inr v \<Rightarrow> Inr PNone)))"

definition main_download ::
  "env \<Rightarrow> string option \<Rightarrow> string option \<Rightarrow> string option
     \<Rightarrow> event list \<times> (error + pyval)" where
  "main_download e file_path token database_id =
    (case parse_args_download e file_path token database_id of
       Inl err \<Rightarrow> ([Call_get_token, Call_get_config], Inl err)
     | Inr (f, t, d) \<Rightarrow>
         (let r = sanitize_arguments_and_download e f t d
          in ([Call_get_token, Call_get_config] @ fst r,
              case snd r of Inl err \<Rightarrow> Inl err | Inr v \<Rightarrow> Inr PNone)))"

text \<open>The keyword arguments of the first call of \<^verbatim>\<open>run\<close> among the recorded calls.\<close>

fun run_call :: "event list \<Rightarrow> run_kwargs option" where
  "run_call [] = None"
| "run_call (Call_run kw # es) = Some kw"
| "run_call (e # es) = run_call es"

section \<open>The Bibtex Reconciler\<close>

text \<open>
  The reconciler \<^verbatim>\<open>merge(existing_file_content, new_entries)\<close> is not among the source
  files: \<^verbatim>\<open>main.py\<close> reaches it only through the imported \<^verbatim>\<open>run\<close>. It is modelled from
  section 4.4 of the specification.

  A bib file is "an ordered text document composed of zero or more BibtexEntry blocks":
  its content is represented by the sequence of its blocks, and the new entries by the
  sequence of their strings. The specification does not say how a citation key is read
  off a block, so the extraction is the parameter \<open>key_of\<close>. The "ordered mapping of
  citation-key to entry block" is an association list in insertion order.
\<close>

text \<open>
  Modelled from the spec: one step of the reconciler, missing from the source files.
  "Extract its citation key; if the key is absent, append the entry at the end; if the
  key is already present, the existing entry's block is left unchanged."
\<close>

definition add_entry ::
  "(string \<Rightarrow> string) \<Rightarrow> (string \<times> string) list \<Rightarrow> string \<Rightarrow> (string \<times> string) list" where
  "add_entry key_of m b =
     (if key_of b \<in> set (map fst m) then m else m @ [(key_of b, b)])"

text \<open>
  Modelled from the spec: the parsing step of the reconciler, missing from the source
  files. "Parse existing file into an ordered mapping of citation-key to entry block
  (first occurrence wins if the source file itself has duplicates)."
\<close>

definition parse_existing :: "(string \<Rightarrow> string) \<Rightarrow> string list \<Rightarrow> (string \<times> string) list" where
  "parse_existing key_of F = foldl (add_entry key_of) [] F"

text \<open>
  Modelled from the spec: the reconciler \<^verbatim>\<open>merge\<close>, missing from the source files.
  The existing file is parsed, each new entry is added in arrival order, and the
  "output re-serializes all entries (pre-existing order first, then newly appended)".
\<close>

definition merge :: "(string \<Rightarrow> string) \<Rightarrow> string list \<Rightarrow> string list \<Rightarrow> string list" where
  "merge key_of F E = map snd (foldl (add_entry key_of) (parse_existing key_of F) E)"

text \<open>
  The invariant of the ordered mapping: no key twice, and every block is filed under
  its own key.
\<close>

definition keyed :: "(string \<Rightarrow> string) \<Rightarrow> (string \<times> string) list \<Rightarrow> bool" where
  "keyed key_of m = (distinct (map fst m) \<and> list_all (\<lambda>p. fst p = key_of (snd p)) m)"

section \<open>Concrete collaborators for the examples\<close>

text \<open>
  An environment with a given stored token, a given configuration and a remote database
  that holds the given rows; writing and \<^verbatim>\<open>run\<close> succeed, and the terminal has the
  default 80 columns.
\<close>

definition example_env :: "pyval \<Rightarrow> (string \<rightharpoonup> pyval) \<Rightarrow> string list \<Rightarrow> env" where
  "example_env tok cfg rows =
     \<lparr>get_token = tok, get_config = cfg,
      get_bibtex_string_list_from_database = (\<lambda>t d. Inr rows),
      write_to_file = (\<lambda>c p. Inr ()),
      run = (\<lambda>kw. Inr PNone),
      columns = 80\<rparr>"

text \<open>A key extraction for the examples: the text between the first brace and the next comma.\<close>

definition comma_key :: "string \<Rightarrow> string" where
  "comma_key b = takeWhile (\<lambda>c. c \<noteq> CHR '','') (tl (dropWhile (\<lambda>c. c \<noteq> CHR ''{'') b))"

section \<open>Parameter resolution in the handlers\<close>

lemma token_message_mentions_token:
  "contains ''The Notion token is not set nor saved.'' ''token''"
  by simp

lemma token_message_omits_database_id:
  "\<not> contains ''The Notion token is not set nor saved.'' ''database_id''"
  by simp

lemma database_id_message_mentions_database_id:
  "contains ''The database_id is not set nor saved.'' ''database_id''"
  by simp

text \<open>
  Claim C1: the save flag that \<^verbatim>\<open>run\<close> is called with is the explicit save value if
  one is given; otherwise the stored \<^verbatim>\<open>save_to_bib_file\<close>; otherwise true. The
  configuration store is not among the source files; the handler reads the stored
  value as text (\<^verbatim>\<open>save_str\<close>, default \<^verbatim>\<open>'True'\<close>), in which true is written \<^verbatim>\<open>'True'\<close>.
  So, for a store that holds text: with no explicit save argument the flag is true
  exactly when the stored text is \<^verbatim>\<open>'True'\<close>, and in particular a stored true gives
  \<^verbatim>\<open>save_to_bib_file = True\<close>. The call of \<^verbatim>\<open>run\<close> takes place when the token and the
  database id resolve.
\<close>

theorem run_save_flag_resolution:
  assumes "fallback token (get_token e) \<noteq> PNone"
    and "fallback database_id (dict_get (get_config e) ''database_id'' PNone) \<noteq> PNone"
    and "get_config e ''save_to_bib_file'' = map_option PStr stored"
  shows "map_option kw_save_to_bib_file (run_call (fst (sanitize_arguments_and_run
           e token database_id bib_file_path bib_string save))) =
         Some (if save \<noteq> PNone then save
               else case stored of
                      None \<Rightarrow> PBool True
                    | Some save_str \<Rightarrow> PBool (save_str = ''True''))"
  using assms
  by (simp add: sanitize_arguments_and_run_def Let_def fallback_def dict_get_def
      split: option.splits)

theorem run_save_flag_resolution_witness:
  "fallback PNone (get_token (example_env (PStr ''secret'')
       [''database_id'' \<mapsto> PStr ''db'', ''save_to_bib_file'' \<mapsto> PStr ''True''] [])) \<noteq> PNone
   \<and> fallback PNone (dict_get (get_config (example_env (PStr ''secret'')
       [''database_id'' \<mapsto> PStr ''db'', ''save_to_bib_file'' \<mapsto> PStr ''True''] []))
         ''database_id'' PNone) \<noteq> PNone
   \<and> get_config (example_env (PStr ''secret'')
       [''database_id'' \<mapsto> PStr ''db'', ''save_to_bib_file'' \<mapsto> PStr ''True''] [])
         ''save_to_bib_file'' = map_option PStr (Some ''True'')
   \<and> map_option kw_save_to_bib_file (run_call (fst (sanitize_arguments_and_run
       (example_env (PStr ''secret'')
          [''database_id'' \<mapsto> PStr ''db'', ''save_to_bib_file'' \<mapsto> PStr ''True''] [])
       PNone PNone PNone PNone PNone))) = Some (PBool True)"
proof -
  let ?e = "example_env (PStr ''secret'')
       [''database_id'' \<mapsto> PStr ''db'', ''save_to_bib_file'' \<mapsto> PStr ''True''] []"
  have a: "fallback PNone (get_token ?e) \<noteq> PNone"
    by (simp add: example_env_def fallback_def)
  have b: "fallback PNone (dict_get (get_config ?e) ''database_id'' PNone) \<noteq> PNone"
    by (simp add: example_env_def fallback_def dict_get_def)
  have c: "get_config ?e ''save_to_bib_file'' = map_option PStr (Some ''True'')"
    by (simp add: example_env_def)
  show ?thesis
    using a b c run_save_flag_resolution [OF a b c, of PNone PNone PNone] by simp
qed

text \<open>
  Claim C2: in the handler of \<^verbatim>\<open>run\<close>, a token passed explicitly is the one \<^verbatim>\<open>run\<close> is
  called with (if \<^verbatim>\<open>run\<close> is not called, that is because the database id is missing),
  and the stored token has no influence on the outcome. When no token is passed and
  none is stored, the handler raises \<^verbatim>\<open>ConfigError\<close> with a message that mentions the
  token, after the single call \<^verbatim>\<open>get_token()\<close>: nothing reaches the network.
\<close>

theorem run_token_resolution:
  assumes "token \<noteq> PNone"
    and "get_token e2 = PNone"
  shows "(case run_call (fst (sanitize_arguments_and_run
                 e token database_id bib_file_path bib_string save)) of
            Some kw \<Rightarrow> kw_token kw = token
          | None \<Rightarrow> snd (sanitize_arguments_and_run
                 e token database_id bib_file_path bib_string save) =
                     Inl (ConfigError ''The database_id is not set nor saved.''))
       \<and> sanitize_arguments_and_run (e\<lparr>get_token := stored\<rparr>)
             token database_id bib_file_path bib_string save =
         sanitize_arguments_and_run e token database_id bib_file_path bib_string save
       \<and> sanitize_arguments_and_run e2 PNone database_id2 bib_file_path2 bib_string2 save2 =
           ([Call_get_token], Inl (ConfigError ''The Notion token is not set nor saved.''))
       \<and> contains ''The Notion token is not set nor saved.'' ''token''"
  using assms
  by (simp add: sanitize_arguments_and_run_def Let_def fallback_def)

theorem run_token_resolution_witness:
  "PStr ''explicit'' \<noteq> PNone
   \<and> get_token (example_env PNone Map.empty []) = PNone
   \<and> map_option kw_token (run_call (fst (sanitize_arguments_and_run
        (example_env (PStr ''stale'') [''database_id'' \<mapsto> PStr ''db''] [])
        (PStr ''explicit'') PNone PNone PNone PNone))) = Some (PStr ''explicit'')
   \<and> sanitize_arguments_and_run (example_env PNone Map.empty []) PNone PNone PNone PNone PNone =
        ([Call_get_token], Inl (ConfigError ''The Notion token is not set nor saved.''))"
proof -
  have a: "PStr ''explicit'' \<noteq> PNone" by simp
  have b: "get_token (example_env PNone Map.empty []) = PNone"
    by (simp add: example_env_def)
  have c: "run_call (fst (sanitize_arguments_and_run
        (example_env (PStr ''stale'') [''database_id'' \<mapsto> PStr ''db''] [])
        (PStr ''explicit'') PNone PNone PNone PNone)) \<noteq> None"
    by (simp add: sanitize_arguments_and_run_def example_env_def fallback_def dict_get_def)
  show ?thesis
    using a b c
      run_token_resolution [OF a b,
        of "example_env (PStr ''stale'') [''database_id'' \<mapsto> PStr ''db''] []"
           PNone PNone PNone PNone PNone PNone PNone PNone PNone]
    by (auto split: option.splits)
qed

text \<open>
  On the command line the same case is caught earlier: \<^verbatim>\<open>get_parser\<close> makes \<^verbatim>\<open>--token\<close>
  a required option when no token is stored, so \<^verbatim>\<open>main\<close> ends inside the parser and
  the handler is not entered.
\<close>

lemma main_run_missing_token:
  "get_token e = PNone \<Longrightarrow>
   \<exists>err. main_run e None database_id bib_file_path bib_string =
            ([Call_get_token, Call_get_config], Inl err)
        \<and> (err = AssertionError \<or> (\<exists>u. err = UsageError u))"
  by (simp add: main_run_def parse_args_run_def parser_error_def Let_def)

text \<open>
  Claim C3, as stated: whenever no database id is passed and none is stored, \<^verbatim>\<open>run\<close> and
  \<^verbatim>\<open>download\<close> fail with a \<^verbatim>\<open>ConfigError\<close> that names the database id. The token is
  resolved first: when it is missing as well, the error raised is the one about the
  token, and its message does not name the database id.
\<close>

theorem database_id_missing_without_token_counterexample:
  "snd (sanitize_arguments_and_run (example_env PNone Map.empty [])
          PNone PNone PNone PNone PNone) =
     Inl (ConfigError ''The Notion token is not set nor saved.'')
   \<and> \<not> contains ''The Notion token is not set nor saved.'' ''database_id''"
  by (simp add: sanitize_arguments_and_run_def example_env_def fallback_def)

text \<open>
  Claim C3, amended: when a token is available (passed or stored) and no database id is
  passed and none is stored, the handlers of \<^verbatim>\<open>run\<close> and of \<^verbatim>\<open>download\<close> raise
  \<^verbatim>\<open>ConfigError\<close> with a message that names \<^verbatim>\<open>database_id\<close>. The token and the
  configuration are read once each and nothing else is called: there is no second
  attempt, no remote call and no file write.
\<close>

theorem database_id_missing_with_token:
  assumes "fallback token (get_token e) \<noteq> PNone"
    and "dict_get (get_config e) ''database_id'' PNone = PNone"
  shows "sanitize_arguments_and_run e token PNone bib_file_path bib_string save =
           ([Call_get_token, Call_get_config],
            Inl (ConfigError ''The database_id is not set nor saved.''))
       \<and> sanitize_arguments_and_download e file_path token PNone =
           ([Call_get_token, Call_get_config],
            Inl (ConfigError ''The database_id is not set nor saved.''))
       \<and> contains ''The database_id is not set nor saved.'' ''database_id''"
  using assms
  by (simp add: sanitize_arguments_and_run_def sanitize_arguments_and_download_def
      Let_def fallback_def)

theorem database_id_missing_with_token_witness:
  "fallback PNone (get_token (example_env (PStr ''secret'') Map.empty [])) \<noteq> PNone
   \<and> dict_get (get_config (example_env (PStr ''secret'') Map.empty [])) ''database_id'' PNone
       = PNone
   \<and> sanitize_arguments_and_run (example_env (PStr ''secret'') Map.empty [])
       PNone PNone PNone PNone PNone =
           ([Call_get_token, Call_get_config],
            Inl (ConfigError ''The database_id is not set nor saved.''))
   \<and> sanitize_arguments_and_download (example_env (PStr ''secret'') Map.empty [])
       (PStr ''out.bib'') PNone PNone =
           ([Call_get_token, Call_get_config],
            Inl (ConfigError ''The database_id is not set nor saved.''))"
proof -
  let ?e = "example_env (PStr ''secret'') Map.empty []"
  have a: "fallback PNone (get_token ?e) \<noteq> PNone"
    by (simp add: example_env_def fallback_def)
  have b: "dict_get (get_config ?e) ''database_id'' PNone = PNone"
    by (simp add: example_env_def dict_get_def)
  show ?thesis
    using a b database_id_missing_with_token [OF a b, of PNone PNone PNone "PStr ''out.bib''"]
    by simp
qed

text \<open>
  Claim C10: when neither a token nor a database id is passed or stored, the handlers
  of \<^verbatim>\<open>run\<close> and of \<^verbatim>\<open>download\<close> raise the \<^verbatim>\<open>ConfigError\<close> about the token, whose
  message mentions the token and not the database id. Only \<^verbatim>\<open>get_token()\<close> has been
  called at that point: the configuration, where the database id would be looked up,
  has not been read yet.
\<close>

theorem token_checked_before_database_id:
  assumes "get_token e = PNone"
    and "dict_get (get_config e) ''database_id'' PNone = PNone"
  shows "sanitize_arguments_and_run e PNone PNone bib_file_path bib_string save =
           ([Call_get_token], Inl (ConfigError ''The Notion token is not set nor saved.''))
       \<and> sanitize_arguments_and_download e file_path PNone PNone =
           ([Call_get_token], Inl (ConfigError ''The Notion token is not set nor saved.''))
       \<and> contains ''The Notion token is not set nor saved.'' ''token''
       \<and> \<not> contains ''The Notion token is not set nor saved.'' ''database_id''"
  using assms
  by (simp add: sanitize_arguments_and_run_def sanitize_arguments_and_download_def fallback_def)

theorem token_checked_before_database_id_witness:
  "get_token (example_env PNone Map.empty []) = PNone
   \<and> dict_get (get_config (example_env PNone Map.empty [])) ''database_id'' PNone = PNone
   \<and> sanitize_arguments_and_run (example_env PNone Map.empty [])
       PNone PNone PNone PNone PNone =
           ([Call_get_token], Inl (ConfigError ''The Notion token is not set nor saved.''))
   \<and> sanitize_arguments_and_download (example_env PNone Map.empty [])
       (PStr ''out.bib'') PNone PNone =
           ([Call_get_token], Inl (ConfigError ''The Notion token is not set nor saved.''))"
proof -
  let ?e = "example_env PNone Map.empty []"
  have a: "get_token ?e = PNone"
    by (simp add: example_env_def)
  have b: "dict_get (get_config ?e) ''database_id'' PNone = PNone"
    by (simp add: example_env_def dict_get_def)
  show ?thesis
    using a b token_checked_before_database_id [OF a b, of PNone PNone PNone "PStr ''out.bib''"]
    by simp
qed

section \<open>The download handler\<close>

text \<open>
  Python's \<^verbatim>\<open>join\<close> keeps every string as it is and in order, and puts the separator
  once in front of every string but the first.
\<close>

lemma join_concat:
  "join sep xs = concat (case xs of [] \<Rightarrow> [] | y # ys \<Rightarrow> y # map (\<lambda>z. sep @ z) ys)"
  by (induction sep xs rule: join.induct) simp_all

text \<open>
  Claim C8: when the token or the database id cannot be resolved, the handler of
  \<^verbatim>\<open>download\<close> raises the corresponding \<^verbatim>\<open>ConfigError\<close>, and none of the calls made
  until then reaches the network or writes a file.
\<close>

theorem download_resolution_precedes_fetch:
  assumes "fallback token (get_token e) = PNone
         \<or> fallback database_id (dict_get (get_config e) ''database_id'' PNone) = PNone"
  shows "(snd (sanitize_arguments_and_download e file_path token database_id) =
            Inl (ConfigError ''The Notion token is not set nor saved.'')
        \<or> snd (sanitize_arguments_and_download e file_path token database_id) =
            Inl (ConfigError ''The database_id is not set nor saved.''))
       \<and> list_all (\<lambda>c. \<not> is_network_call c \<and> \<not> is_file_write c)
            (fst (sanitize_arguments_and_download e file_path token database_id))"
  using assms
  by (auto simp: sanitize_arguments_and_download_def Let_def)

theorem download_resolution_precedes_fetch_witness:
  "(fallback PNone (get_token (example_env (PStr ''secret'') Map.empty [''@book{a}''])) = PNone
    \<or> fallback PNone (dict_get (get_config
          (example_env (PStr ''secret'') Map.empty [''@book{a}''])) ''database_id'' PNone) = PNone)
   \<and> snd (sanitize_arguments_and_download
          (example_env (PStr ''secret'') Map.empty [''@book{a}'']) (PStr ''out.bib'') PNone PNone)
       \<noteq> Inr PNone
   \<and> list_all (\<lambda>c. \<not> is_network_call c \<and> \<not> is_file_write c)
       (fst (sanitize_arguments_and_download
          (example_env (PStr ''secret'') Map.empty [''@book{a}'']) (PStr ''out.bib'') PNone PNone))"
proof -
  let ?e = "example_env (PStr ''secret'') Map.empty [''@book{a}'']"
  have a: "fallback PNone (get_token ?e) = PNone
    \<or> fallback PNone (dict_get (get_config ?e) ''database_id'' PNone) = PNone"
    by (simp add: example_env_def fallback_def dict_get_def)
  show ?thesis
    using a download_resolution_precedes_fetch [OF a, of "PStr ''out.bib''"]
    by auto
qed

text \<open>
  Claim C7: when the handler of \<^verbatim>\<open>download\<close> returns normally, the remote client was
  called once with the resolved token and database id, and \<^verbatim>\<open>write_to_file\<close> was called
  once, with the given file path. The content written is the first returned string
  followed, for every further returned string in the order returned, by two line
  feeds and that string; it is empty when nothing was returned.
\<close>

theorem download_writes_joined_entries:
  assumes "snd (sanitize_arguments_and_download e file_path token database_id) = Inr v"
  shows "\<exists>bibtex_str_list.
           get_bibtex_string_list_from_database e
             (fallback token (get_token e))
             (fallback database_id (dict_get (get_config e) ''database_id'' PNone))
             = Inr bibtex_str_list
         \<and> fst (sanitize_arguments_and_download e file_path token database_id) =
             [Call_get_token, Call_get_config,
              Call_get_bibtex_string_list_from_database
                (fallback token (get_token e))
                (fallback database_id (dict_get (get_config e) ''database_id'' PNone)),
              Call_print bibtex_str_list,
              Call_write_to_file
                (concat (case bibtex_str_list of
                           [] \<Rightarrow> []
                         | first # others \<Rightarrow>
                             first # map (\<lambda>entry. [CHR 0x0A, CHR 0x0A] @ entry) others))
                file_path]"
  using assms
  by (auto simp: sanitize_arguments_and_download_def Let_def blank_line_def join_concat
      split: if_splits sum.splits)

theorem download_writes_joined_entries_witness:
  "snd (sanitize_arguments_and_download
          (example_env (PStr ''secret'') [''database_id'' \<mapsto> PStr ''db'']
             [''@article{smith2020}'', ''@book{doe2021}'', ''@misc{roe2022}''])
          (PStr ''out.bib'') PNone PNone) = Inr PNone
   \<and> fst (sanitize_arguments_and_download
          (example_env (PStr ''secret'') [''database_id'' \<mapsto> PStr ''db'']
             [''@article{smith2020}'', ''@book{doe2021}'', ''@misc{roe2022}''])
          (PStr ''out.bib'') PNone PNone) =
       [Call_get_token, Call_get_config,
        Call_get_bibtex_string_list_from_database (PStr ''secret'') (PStr ''db''),
        Call_print [''@article{smith2020}'', ''@book{doe2021}'', ''@misc{roe2022}''],
        Call_write_to_file
          (''@article{smith2020}'' @ [CHR 0x0A, CHR 0x0A] @ ''@book{doe2021}'' @
             [CHR 0x0A, CHR 0x0A] @ ''@misc{roe2022}'')
          (PStr ''out.bib'')]"
proof -
  let ?e = "example_env (PStr ''secret'') [''database_id'' \<mapsto> PStr ''db'']
             [''@article{smith2020}'', ''@book{doe2021}'', ''@misc{roe2022}'']"
  have a: "snd (sanitize_arguments_and_download ?e (PStr ''out.bib'') PNone PNone) = Inr PNone"
    by (simp add: sanitize_arguments_and_download_def example_env_def fallback_def dict_get_def)
  have b: "get_bibtex_string_list_from_database ?e t d
             = Inr [''@article{smith2020}'', ''@book{doe2021}'', ''@misc{roe2022}'']" for t d
    by (simp add: example_env_def)
  have c: "fallback PNone (get_token ?e) = PStr ''secret''"
    by (simp add: example_env_def fallback_def)
  have d: "fallback PNone (dict_get (get_config ?e) ''database_id'' PNone) = PStr ''db''"
    by (simp add: example_env_def fallback_def dict_get_def)
  from download_writes_joined_entries [OF a] show ?thesis
    using a by (auto simp: b c d)
qed

section \<open>Errors of the parser\<close>

text \<open>The lengths that decide whether a usage line fits the terminal.\<close>

lemma length_parser_usage: "length parser_usage = 63"
  by (simp add: parser_usage_def)

lemma length_download_usage:
  "length (download_usage e) = (if get_token e = PNone then 91 else 92)"
  by (simp add: download_usage_def option_usage_def length_parser_usage)

lemma length_run_usage:
  "length (run_usage e) =
     (if get_token e = PNone then 83 else 84) +
     (if dict_get (get_config e) ''bib_file_path'' PNone = PNone then 11 else 9)"
  by (simp add: run_usage_def option_usage_def length_parser_usage)

text \<open>
  The \<^verbatim>\<open>download\<close> parser declares \<^verbatim>\<open>--file-path\<close> with \<^verbatim>\<open>required=True\<close>. On a
  terminal wide enough for the usage line, \<^verbatim>\<open>download\<close> without the option ends in
  the usage error that lists it as missing, whatever the configuration holds.
\<close>

lemma download_requires_file_path_wide_terminal:
  "101 \<le> columns e \<Longrightarrow>
   main_download e None token database_id =
     ([Call_get_token, Call_get_config],
      Inl (UsageError (MissingRequired
        (''-f/--file-path'' #
           (if get_token e = PNone \<and> token = None then [''-t/--token''] else [])))))"
  by (simp add: main_download_def parse_args_download_def parser_error_def
      length_download_usage)

text \<open>
  On a narrower terminal the report of the error fails: the option is required and
  has an empty \<^verbatim>\<open>metavar\<close>, so printing the usage line raises \<^verbatim>\<open>AssertionError\<close>.
\<close>

lemma download_requires_file_path_narrow_terminal:
  "columns e < 100 \<Longrightarrow>
   main_download e None token database_id =
     ([Call_get_token, Call_get_config], Inl AssertionError)"
  by (simp add: main_download_def parse_args_download_def parser_error_def
      length_download_usage)

text \<open>
  Claim C9 says that \<^verbatim>\<open>download\<close> without a file path is rejected as a usage error,
  whatever the configuration holds. At this input it is not: \<^verbatim>\<open>download\<close> with no
  option at all on a terminal of 80 columns, with a stored token and a configured
  database id, ends in \<^verbatim>\<open>AssertionError\<close>.
\<close>

theorem download_without_file_path_assertion_error:
  "main_download (example_env (PStr ''secret'') [''database_id'' \<mapsto> PStr ''db''] [])
     None None None =
     ([Call_get_token, Call_get_config], Inl AssertionError)"
  by (simp add: main_download_def parse_args_download_def parser_error_def
      length_download_usage example_env_def)

text \<open>
  Claim C4, as stated: \<^verbatim>\<open>--bib-file-path\<close> and \<^verbatim>\<open>--bib-string\<close> are mutually exclusive.
  The parser puts them in a mutually exclusive group only when no bib file path is
  configured. With a configured path they form a plain group: both are accepted
  together and \<^verbatim>\<open>run\<close> is called with both.
\<close>

theorem run_bib_options_together_counterexample:
  "main_run (example_env (PStr ''secret'')
       [''database_id'' \<mapsto> PStr ''db'', ''bib_file_path'' \<mapsto> PStr ''/home/u/refs.bib''] [])
     None None (Some ''/tmp/other.bib'') (Some ''@book{doe2021}'') =
   ([Call_get_token, Call_get_config, Call_get_token, Call_get_config,
     Call_run \<lparr>kw_token = PStr ''secret'', kw_database_id = PStr ''db'',
               kw_bib_string = PStr ''@book{doe2021}'',
               kw_bib_file_path = PStr ''/tmp/other.bib'',
               kw_save_to_bib_file = PBool True\<rparr>],
    Inr PNone)"
  by (simp add: main_run_def parse_args_run_def sanitize_arguments_and_run_def example_env_def
      fallback_def dict_get_def of_option_def)

text \<open>
  Claim C4, amended: when a token is stored and no bib file path is configured, \<^verbatim>\<open>run\<close>
  with neither \<^verbatim>\<open>--bib-file-path\<close> nor \<^verbatim>\<open>--bib-string\<close> ends in a usage error, and so does
  \<^verbatim>\<open>run\<close> with both of them. In both cases only the token and the configuration have
  been read: the handler is not entered and nothing reaches the network.
\<close>

theorem run_bib_source_usage_error:
  assumes "dict_get (get_config e) ''bib_file_path'' PNone = PNone"
    and "get_token e \<noteq> PNone"
  shows "main_run e token database_id None None =
           ([Call_get_token, Call_get_config], Inl (UsageError OneOfRequired))
       \<and> main_run e token database_id (Some f) (Some s) =
           ([Call_get_token, Call_get_config], Inl (UsageError NotAllowedTogether))"
  using assms
  by (simp add: main_run_def parse_args_run_def parser_error_def)

theorem run_bib_source_usage_error_witness:
  "dict_get (get_config (example_env (PStr ''secret'') [''database_id'' \<mapsto> PStr ''db''] []))
     ''bib_file_path'' PNone = PNone
   \<and> get_token (example_env (PStr ''secret'') [''database_id'' \<mapsto> PStr ''db''] []) \<noteq> PNone
   \<and> main_run (example_env (PStr ''secret'') [''database_id'' \<mapsto> PStr ''db''] [])
       None None None None =
         ([Call_get_token, Call_get_config], Inl (UsageError OneOfRequired))
   \<and> main_run (example_env (PStr ''secret'') [''database_id'' \<mapsto> PStr ''db''] [])
       None None (Some ''/tmp/other.bib'') (Some ''@book{doe2021}'') =
         ([Call_get_token, Call_get_config], Inl (UsageError NotAllowedTogether))"
proof -
  let ?e = "example_env (PStr ''secret'') [''database_id'' \<mapsto> PStr ''db''] []"
  have a: "dict_get (get_config ?e) ''bib_file_path'' PNone = PNone"
    by (simp add: example_env_def dict_get_def)
  have b: "get_token ?e \<noteq> PNone"
    by (simp add: example_env_def)
  show ?thesis
    using a b
      run_bib_source_usage_error [OF a b, of None None "''/tmp/other.bib''" "''@book{doe2021}''"]
    by simp
qed

text \<open>
  Without a stored token \<^verbatim>\<open>--token\<close> is a required option with an empty \<^verbatim>\<open>metavar\<close>,
  and the same two command lines still end inside the parser, before the handler: in
  the usage error on a terminal wide enough for the usage line, in \<^verbatim>\<open>AssertionError\<close>
  on a narrower one.
\<close>

lemma run_bib_source_rejected:
  "dict_get (get_config e) ''bib_file_path'' PNone = PNone \<Longrightarrow>
   (\<exists>err. main_run e token database_id None None =
            ([Call_get_token, Call_get_config], Inl err))
   \<and> (\<exists>err. main_run e token database_id (Some f) (Some s) =
            ([Call_get_token, Call_get_config], Inl err))"
  by (simp add: main_run_def parse_args_run_def Let_def)

lemma run_bib_source_narrow_terminal:
  "dict_get (get_config e) ''bib_file_path'' PNone = PNone \<Longrightarrow> get_token e = PNone \<Longrightarrow>
   columns e < 103 \<Longrightarrow>
   main_run e token database_id None None =
     ([Call_get_token, Call_get_config], Inl AssertionError)
   \<and> main_run e token database_id (Some f) (Some s) =
     ([Call_get_token, Call_get_config], Inl AssertionError)"
  by (simp add: main_run_def parse_args_run_def parser_error_def length_run_usage)

text \<open>
  With a configured bib file path the parser has no requirement on the two options:
  the only error left for \<^verbatim>\<open>run\<close> is the missing token.
\<close>

lemma parse_args_run_configured:
  "dict_get (get_config e) ''bib_file_path'' PNone \<noteq> PNone \<Longrightarrow>
   parse_args_run e token database_id bib_file_path bib_string =
     (if get_token e = PNone \<and> token = None
      then Inl (parser_error e (run_usage e) True (MissingRequired [''-t/--token'']))
      else Inr (of_option token, of_option database_id,
                of_option bib_file_path, of_option bib_string))"
  by (simp add: parse_args_run_def Let_def)

section \<open>The reconciler: skip on conflict and idempotence\<close>

text \<open>Adding entries keeps the invariant of the ordered mapping.\<close>

lemma keyed_Nil: "keyed key_of []"
  by (simp add: keyed_def)

lemma keyed_add_entry: "keyed key_of m \<Longrightarrow> keyed key_of (add_entry key_of m b)"
  by (auto simp: keyed_def add_entry_def)

lemma keyed_foldl: "keyed key_of m \<Longrightarrow> keyed key_of (foldl (add_entry key_of) m xs)"
  by (induction xs arbitrary: m) (simp_all add: keyed_add_entry)

text \<open>The keys afterwards are the keys before and the keys of the entries added.\<close>

lemma keys_foldl:
  "fst ` set (foldl (add_entry key_of) m xs) = fst ` set m \<union> key_of ` set xs"
  by (induction xs arbitrary: m) (auto simp: add_entry_def)

text \<open>Entries whose keys are all present change nothing.\<close>

lemma foldl_known_keys:
  "key_of ` set xs \<subseteq> fst ` set m \<Longrightarrow> foldl (add_entry key_of) m xs = m"
  by (induction xs arbitrary: m) (auto simp: add_entry_def)

text \<open>Parsing the blocks of an ordered mapping gives the mapping back.\<close>

lemma foldl_reparse:
  "keyed key_of (acc @ m) \<Longrightarrow> foldl (add_entry key_of) acc (map snd m) = acc @ m"
proof (induction m arbitrary: acc)
  case Nil
  then show ?case by simp
next
  case (Cons p m)
  obtain k b where p: "p = (k, b)" by (cases p)
  from Cons.prems p have k: "k = key_of b" and fresh: "k \<notin> fst ` set acc"
    by (auto simp: keyed_def)
  then have step: "add_entry key_of acc b = acc @ [p]"
    by (simp add: add_entry_def p)
  from Cons.prems have "keyed key_of ((acc @ [p]) @ m)" by simp
  then have "foldl (add_entry key_of) (acc @ [p]) (map snd m) = (acc @ [p]) @ m"
    by (rule Cons.IH)
  with step show ?case by (simp add: p)
qed

text \<open>
  Looking a key up afterwards: the block the mapping had, and otherwise the first of
  the added entries with that key.
\<close>

lemma map_of_foldl:
  "map_of (foldl (add_entry key_of) m xs) k =
     (case map_of m k of Some b \<Rightarrow> Some b | None \<Rightarrow> find (\<lambda>x. key_of x = k) xs)"
proof (induction xs arbitrary: m)
  case Nil
  then show ?case by (simp split: option.splits)
next
  case (Cons x xs)
  show ?case
  proof (cases "key_of x \<in> fst ` set m")
    case True
    then have "add_entry key_of m x = m" by (simp add: add_entry_def)
    moreover from True have "key_of x = k \<Longrightarrow> map_of m k \<noteq> None"
      by (auto simp: map_of_eq_None_iff)
    ultimately show ?thesis by (auto simp: Cons.IH split: option.splits)
  next
    case False
    then have a: "add_entry key_of m x = m @ [(key_of x, x)]" by (simp add: add_entry_def)
    show ?thesis
      by (auto simp: Cons.IH a map_add_def split: option.splits)
  qed
qed

text \<open>In an ordered mapping, the blocks with a given key are the one block filed under it.\<close>

lemma keyed_filter:
  "keyed key_of m \<Longrightarrow> map_of m k = Some b \<Longrightarrow> filter (\<lambda>x. key_of x = k) (map snd m) = [b]"
proof (induction m)
  case Nil
  then show ?case by simp
next
  case (Cons p m)
  obtain k' b' where p: "p = (k', b')" by (cases p)
  from Cons.prems(1) p have kb: "k' = key_of b'" and fresh: "k' \<notin> fst ` set m"
    and km: "keyed key_of m"
    by (auto simp: keyed_def)
  from km have all: "\<forall>q \<in> set m. fst q = key_of (snd q)"
    by (simp add: keyed_def list_all_iff)
  show ?case
  proof (cases "k' = k")
    case True
    with Cons.prems(2) p have "b' = b" by simp
    moreover from fresh True all have "filter (\<lambda>x. key_of x = k) (map snd m) = []"
      by (force simp: filter_empty_conv)
    ultimately show ?thesis using True kb p by simp
  next
    case False
    with Cons.prems(2) p have "map_of m k = Some b" by simp
    with km have "filter (\<lambda>x. key_of x = k) (map snd m) = [b]" by (rule Cons.IH)
    with False kb p show ?thesis by simp
  qed
qed

text \<open>
  Claim C5: when a citation key \<open>k\<close> occurs in the existing file \<open>F\<close> and in the new
  entries \<open>E\<close>, the merged file has exactly one block with key \<open>k\<close>, and it is the
  block that \<open>F\<close> has for \<open>k\<close> (the first one, if \<open>F\<close> has several); an entry of \<open>E\<close>
  with key \<open>k\<close> that differs from it is not in the merged file.
\<close>

theorem merge_skip_on_conflict:
  assumes "k \<in> key_of ` set F" and "k \<in> key_of ` set E"
  shows "\<exists>b. find (\<lambda>x. key_of x = k) F = Some b
           \<and> filter (\<lambda>x. key_of x = k) (merge key_of F E) = [b]
           \<and> (\<forall>e \<in> set E. key_of e = k \<and> e \<noteq> b \<longrightarrow> e \<notin> set (merge key_of F E))"
proof -
  let ?M = "foldl (add_entry key_of) (parse_existing key_of F) E"
  from assms(1) obtain b where b: "find (\<lambda>x. key_of x = k) F = Some b"
    by (cases "find (\<lambda>x. key_of x = k) F") (auto simp: find_None_iff)
  then have "map_of (parse_existing key_of F) k = Some b"
    by (simp add: parse_existing_def map_of_foldl)
  then have m: "map_of ?M k = Some b"
    by (simp add: map_of_foldl)
  have "keyed key_of ?M"
    unfolding parse_existing_def by (intro keyed_foldl keyed_Nil)
  with m have f: "filter (\<lambda>x. key_of x = k) (merge key_of F E) = [b]"
    unfolding merge_def by (intro keyed_filter)
  have "e \<notin> set (merge key_of F E)" if "key_of e = k" "e \<noteq> b" for e
  proof
    assume "e \<in> set (merge key_of F E)"
    with that(1) have "e \<in> set (filter (\<lambda>x. key_of x = k) (merge key_of F E))" by simp
    with f that(2) show False by simp
  qed
  with b f show ?thesis by blast
qed

theorem merge_skip_on_conflict_witness:
  "''smith2020'' \<in> comma_key ` set [''@article{smith2020,old}'']
   \<and> ''smith2020'' \<in> comma_key ` set [''@article{smith2020,DIFFERENT}'', ''@book{doe2021,x}'']
   \<and> filter (\<lambda>x. comma_key x = ''smith2020'')
        (merge comma_key [''@article{smith2020,old}'']
           [''@article{smith2020,DIFFERENT}'', ''@book{doe2021,x}'']) = [''@article{smith2020,old}'']
   \<and> ''@article{smith2020,DIFFERENT}'' \<notin>
        set (merge comma_key [''@article{smith2020,old}'']
           [''@article{smith2020,DIFFERENT}'', ''@book{doe2021,x}''])"
proof -
  let ?F = "[''@article{smith2020,old}'']"
  let ?E = "[''@article{smith2020,DIFFERENT}'', ''@book{doe2021,x}'']"
  have a: "''smith2020'' \<in> comma_key ` set ?F"
    by (simp add: comma_key_def)
  have b: "''smith2020'' \<in> comma_key ` set ?E"
    by (simp add: comma_key_def)
  have c: "find (\<lambda>x. comma_key x = ''smith2020'') ?F = Some ''@article{smith2020,old}''"
    by (simp add: comma_key_def)
  have d: "comma_key ''@article{smith2020,DIFFERENT}'' = ''smith2020''"
    by (simp add: comma_key_def)
  from merge_skip_on_conflict [OF a b] obtain b0 where
    f: "find (\<lambda>x. comma_key x = ''smith2020'') ?F = Some b0"
    and g: "filter (\<lambda>x. comma_key x = ''smith2020'') (merge comma_key ?F ?E) = [b0]"
    and h: "\<forall>e \<in> set ?E. comma_key e = ''smith2020'' \<and> e \<noteq> b0
              \<longrightarrow> e \<notin> set (merge comma_key ?F ?E)"
    by blast
  from f c have b0: "b0 = ''@article{smith2020,old}''" by simp
  from h d b0 have "''@article{smith2020,DIFFERENT}'' \<notin> set (merge comma_key ?F ?E)"
    by simp
  with a b g b0 show ?thesis by simp
qed

text \<open>
  Claim C6: merging the same new entries a second time changes nothing:
  \<open>merge (merge F E) E = merge F E\<close>, for every existing file, every list of new
  entries and every way of reading the citation key off a block.
\<close>

theorem merge_idempotent: "merge key_of (merge key_of F E) E = merge key_of F E"
proof -
  let ?M = "foldl (add_entry key_of) (parse_existing key_of F) E"
  have k: "keyed key_of ?M"
    unfolding parse_existing_def by (intro keyed_foldl keyed_Nil)
  then have "keyed key_of ([] @ ?M)" by simp
  then have "foldl (add_entry key_of) [] (map snd ?M) = [] @ ?M"
    by (rule foldl_reparse)
  then have re: "parse_existing key_of (merge key_of F E) = ?M"
    by (simp add: parse_existing_def merge_def)
  have "key_of ` set E \<subseteq> fst ` set ?M"
    by (simp add: keys_foldl)
  then have "foldl (add_entry key_of) ?M E = ?M"
    by (rule foldl_known_keys)
  with re show ?thesis
    by (simp add: merge_def)
qed

end
